theory Spec2Isabelle
  imports Main "HOL-Library.Word"
begin

unbundle bit_operations_syntax

section \<open>The s390 architecture descriptor\<close>

text \<open>
  The header \<^verbatim>\<open>src/hotspot/cpu/s390/globalDefinitions_s390.hpp\<close> is a flat table of
  compile-time facts about z/Architecture. Every declaration of the header becomes one
  constant here, under the name the header gives it.

  \<^item> \<^verbatim>\<open>const int\<close> is a 32-bit two's complement value, read with \<open>sint\<close>;
  \<^item> \<^verbatim>\<open>const size_t\<close> is an unsigned 64-bit value (s390x is an LP64 target), read
    with \<open>unat\<close> or \<open>uint\<close>;
  \<^item> an object-like macro with a replacement text is the value of that text (the
    literal \<^verbatim>\<open>256\<close> has type \<^verbatim>\<open>int\<close>, \<^verbatim>\<open>true\<close> has type \<^verbatim>\<open>bool\<close>);
  \<^item> a macro defined with an empty replacement text is a capability flag that
    consumers test with \<^verbatim>\<open>#ifdef\<close>: it is the truth value of that test.
\<close>

type_synonym c_int = "32 word"
type_synonym size_t = "64 word"

text \<open>Line 29: \<^verbatim>\<open>#define ShortenBranches true\<close>\<close>

definition ShortenBranches :: bool where
  "ShortenBranches = True"

text \<open>Line 31: \<^verbatim>\<open>const int StackAlignmentInBytes = 8;\<close>\<close>

definition StackAlignmentInBytes :: c_int where
  "StackAlignmentInBytes = 8"

text \<open>
  Lines 33-35: all faults on s390x give the address only on page granularity.
  \<^verbatim>\<open>const size_t pd_segfault_address = 4096;\<close>
\<close>

definition pd_segfault_address :: size_t where
  "pd_segfault_address = 4096"

text \<open>Line 37: \<^verbatim>\<open>#define SUPPORTS_NATIVE_CX8\<close>\<close>

definition SUPPORTS_NATIVE_CX8 :: bool where
  "SUPPORTS_NATIVE_CX8 = True"

text \<open>Line 39: \<^verbatim>\<open>#define CPU_MULTI_COPY_ATOMIC\<close>\<close>

definition CPU_MULTI_COPY_ATOMIC :: bool where
  "CPU_MULTI_COPY_ATOMIC = True"

text \<open>Line 44: \<^verbatim>\<open>const bool CCallingConventionRequiresIntsAsLongs = true;\<close>\<close>

definition CCallingConventionRequiresIntsAsLongs :: bool where
  "CCallingConventionRequiresIntsAsLongs = True"

text \<open>Line 49: \<^verbatim>\<open>#define DEFAULT_CACHE_LINE_SIZE 256\<close>\<close>

definition DEFAULT_CACHE_LINE_SIZE :: c_int where
  "DEFAULT_CACHE_LINE_SIZE = 256"

text \<open>Line 52: \<^verbatim>\<open>#define DEFAULT_PADDING_SIZE DEFAULT_CACHE_LINE_SIZE\<close>\<close>

definition DEFAULT_PADDING_SIZE :: c_int where
  "DEFAULT_PADDING_SIZE = DEFAULT_CACHE_LINE_SIZE"

text \<open>Line 54: \<^verbatim>\<open>#define SUPPORT_RESERVED_STACK_AREA\<close>\<close>

definition SUPPORT_RESERVED_STACK_AREA :: bool where
  "SUPPORT_RESERVED_STACK_AREA = True"

section \<open>What the consumers of the descriptor compute\<close>

text \<open>
  Modelled from the spec: the natural word size of the architecture, which the stack
  alignment is compared with. It is 8 bytes on this 64-bit target; the header does not
  declare it (HotSpot's \<^verbatim>\<open>wordSize\<close> is \<^verbatim>\<open>sizeof(char*)\<close>, in the shared definitions).
\<close>

definition wordSize :: c_int where
  "wordSize = 8"

text \<open>
  Modelled from the spec: rounding an address down to the nearest multiple of a
  granularity, the largest multiple of \<open>g\<close> that does not exceed \<open>x\<close>. The function is
  not part of the header; the fault decoder applies it with \<open>pd_segfault_address\<close> as
  the granularity, the only value it is used with below.
\<close>

definition round_down :: "size_t \<Rightarrow> size_t \<Rightarrow> size_t" where
  "round_down x g = (x div g) * g"

text \<open>
  Modelled from the spec: the padding insertion of the field layout logic, which is not
  part of the header. It is handed the sizes of the fields that are to be kept apart,
  in layout order, and the offset of the first one; it places each field and leaves
  \<open>DEFAULT_PADDING_SIZE\<close> bytes of padding after it. The result lists the offset and the
  size of every field. Offsets are natural numbers: the layout is not bounded by an
  address space here.
\<close>

fun place_contended :: "nat \<Rightarrow> nat list \<Rightarrow> (nat \<times> nat) list" where
  "place_contended off [] = []"
| "place_contended off (sz # rest) =
     (off, sz) # place_contended (off + sz + nat (sint DEFAULT_PADDING_SIZE)) rest"

section \<open>Lemmas on rounding and on the padded layout\<close>

lemma unat_round_down:
  "unat (round_down x g) = (unat x div unat g) * unat g"
proof -
  have "unat x div unat g * unat g \<le> unat x" by simp
  also have "unat x < 2 ^ LENGTH(64)" by (rule unsigned_less)
  finally have lt: "unat x div unat g * unat g < 2 ^ LENGTH(64)" .
  have "unat (round_down x g) = (unat (x div g) * unat g) mod 2 ^ LENGTH(64)"
    unfolding round_down_def by (rule unat_word_ariths)
  also have "\<dots> = (unat x div unat g * unat g) mod 2 ^ LENGTH(64)"
    by (simp only: unat_div)
  also have "\<dots> = unat x div unat g * unat g"
    using lt by (rule mod_less)
  finally show ?thesis .
qed

lemma round_down_idem: "round_down (round_down x g) g = round_down x g"
proof (cases "g = 0")
  case True
  then show ?thesis by (simp add: round_down_def)
next
  case False
  then have "unat g \<noteq> 0" by (simp add: unat_eq_zero)
  then have "unat (round_down (round_down x g) g) = unat (round_down x g)"
    by (simp only: unat_round_down) simp
  then show ?thesis by (simp only: word_unat_eq_iff)
qed



lemma place_contended_lower:
  "j < length szs \<Longrightarrow> off \<le> fst (place_contended off szs ! j)"
proof (induction szs arbitrary: off j)
  case Nil
  then show ?case by simp
next
  case (Cons sz rest)
  show ?case
  proof (cases j)
    case 0
    then show ?thesis by simp
  next
    case (Suc j')
    with Cons.prems have "j' < length rest" by simp
    from Cons.IH [OF this]
    have "off + sz + nat (sint DEFAULT_PADDING_SIZE)
            \<le> fst (place_contended (off + sz + nat (sint DEFAULT_PADDING_SIZE)) rest ! j')" .
    with Suc show ?thesis by simp
  qed
qed

lemma place_contended_gap:
  "i < j \<Longrightarrow> j < length szs \<Longrightarrow>
     fst (place_contended off szs ! i) + snd (place_contended off szs ! i)
       + nat (sint DEFAULT_PADDING_SIZE) \<le> fst (place_contended off szs ! j)"
proof (induction szs arbitrary: off i j)
  case Nil
  then show ?case by simp
next
  case (Cons sz rest)
  from Cons.prems obtain j' where j: "j = Suc j'" and j': "j' < length rest"
    by (cases j) auto
  show ?case
  proof (cases i)
    case 0
    with j place_contended_lower [OF j'] show ?thesis by simp
  next
    case (Suc i')
    with Cons.prems j have "i' < j'" by simp
    from Cons.IH [OF this j'] Suc j show ?thesis by simp
  qed
qed

section \<open>The facts of the descriptor\<close>

text \<open>
  The descriptor's facts and the header's names for them:
  \<^verbatim>\<open>SegfaultAddressGranularity\<close> is \<open>pd_segfault_address\<close>,
  \<^verbatim>\<open>CacheLineSizeBytes\<close> is \<open>DEFAULT_CACHE_LINE_SIZE\<close>,
  \<^verbatim>\<open>PaddingSizeBytes\<close> is \<open>DEFAULT_PADDING_SIZE\<close>,
  \<^verbatim>\<open>CCallingConventionRequiresWideIntArgs\<close> is \<open>CCallingConventionRequiresIntsAsLongs\<close>,
  \<^verbatim>\<open>SupportsNativeCompareAndSwap8Byte\<close> is \<open>SUPPORTS_NATIVE_CX8\<close>,
  \<^verbatim>\<open>MultiCopyAtomic\<close> is \<open>CPU_MULTI_COPY_ATOMIC\<close> and
  \<^verbatim>\<open>SupportsReservedStackArea\<close> is \<open>SUPPORT_RESERVED_STACK_AREA\<close>.
\<close>

text \<open>
  C1. The literal values: the stack alignment is 8, the fault address granularity is
  4096, the cache line size and the padding size are both 256, the C calling
  convention requires wide integer arguments, and branches are shortened.
\<close>

theorem descriptor_literal_values:
  "sint StackAlignmentInBytes = 8 \<and>
   unat pd_segfault_address = 4096 \<and>
   sint DEFAULT_CACHE_LINE_SIZE = 256 \<and>
   sint DEFAULT_PADDING_SIZE = 256 \<and>
   DEFAULT_CACHE_LINE_SIZE = DEFAULT_PADDING_SIZE \<and>
   CCallingConventionRequiresIntsAsLongs = True \<and>
   ShortenBranches = True"
  by (simp add: StackAlignmentInBytes_def pd_segfault_address_def
      DEFAULT_CACHE_LINE_SIZE_def DEFAULT_PADDING_SIZE_def
      CCallingConventionRequiresIntsAsLongs_def ShortenBranches_def)

text \<open>
  C2. The capability flags: the architecture is multi-copy atomic, has a native 8-byte
  compare-and-swap, and supports the reserved stack area.
\<close>

theorem capability_flags_present:
  "CPU_MULTI_COPY_ATOMIC = True \<and> SUPPORTS_NATIVE_CX8 = True \<and>
   SUPPORT_RESERVED_STACK_AREA = True"
  by (simp add: CPU_MULTI_COPY_ATOMIC_def SUPPORTS_NATIVE_CX8_def
      SUPPORT_RESERVED_STACK_AREA_def)

text \<open>
  C3. The padding size is at least the cache line size; in this descriptor the two
  are equal.
\<close>

theorem padding_covers_cache_line:
  "sint DEFAULT_CACHE_LINE_SIZE \<le> sint DEFAULT_PADDING_SIZE \<and>
   DEFAULT_PADDING_SIZE = DEFAULT_CACHE_LINE_SIZE"
  by (simp add: DEFAULT_PADDING_SIZE_def)

text \<open>
  C4. The stack alignment, the cache line size and the padding size are positive
  powers of two, and the stack alignment is at least the natural word size, which is
  8 bytes on this target.
\<close>

theorem sizes_are_powers_of_two:
  "0 < sint StackAlignmentInBytes \<and> (\<exists>k. sint StackAlignmentInBytes = 2 ^ k) \<and>
   0 < sint DEFAULT_CACHE_LINE_SIZE \<and> (\<exists>k. sint DEFAULT_CACHE_LINE_SIZE = 2 ^ k) \<and>
   0 < sint DEFAULT_PADDING_SIZE \<and> (\<exists>k. sint DEFAULT_PADDING_SIZE = 2 ^ k) \<and>
   sint wordSize = 8 \<and> sint wordSize \<le> sint StackAlignmentInBytes"
proof -
  have a: "sint StackAlignmentInBytes = 2 ^ 3"
    by (simp add: StackAlignmentInBytes_def)
  have c: "sint DEFAULT_CACHE_LINE_SIZE = 2 ^ 8"
    by (simp add: DEFAULT_CACHE_LINE_SIZE_def)
  have p: "sint DEFAULT_PADDING_SIZE = 2 ^ 8"
    by (simp add: DEFAULT_PADDING_SIZE_def DEFAULT_CACHE_LINE_SIZE_def)
  have w: "sint wordSize = 8"
    by (simp add: wordSize_def)
  have "\<exists>k. sint StackAlignmentInBytes = 2 ^ k"
    using a by blast
  moreover have "\<exists>k. sint DEFAULT_CACHE_LINE_SIZE = 2 ^ k"
    using c by blast
  moreover have "\<exists>k. sint DEFAULT_PADDING_SIZE = 2 ^ k"
    using p by blast
  ultimately show ?thesis
    using a c p w by simp
qed

text \<open>
  C5. The fault address granularity is a positive power of two, and rounding an
  address down to a multiple of it is idempotent: rounding a rounded address again
  gives the same address.
\<close>

theorem segfault_rounding_idempotent:
  "0 < unat pd_segfault_address \<and> (\<exists>k. unat pd_segfault_address = 2 ^ k) \<and>
   round_down (round_down x pd_segfault_address) pd_segfault_address
     = round_down x pd_segfault_address"
proof -
  have "unat pd_segfault_address = 2 ^ 12"
    by (simp add: pd_segfault_address_def)
  then have "\<exists>k. unat pd_segfault_address = 2 ^ k"
    by blast
  moreover have "0 < unat pd_segfault_address"
    by (simp add: pd_segfault_address_def)
  ultimately show ?thesis
    by (simp add: round_down_idem)
qed

text \<open>
  C7. In the padded layout every two fields are separated by at least the padding
  size, 256 bytes: the later field starts at least 256 bytes after the end of the
  earlier one.
\<close>

theorem padding_separates_fields:
  "i < j \<Longrightarrow> j < length szs \<Longrightarrow>
     fst (place_contended off szs ! i) + snd (place_contended off szs ! i) + 256
       \<le> fst (place_contended off szs ! j) \<and> sint DEFAULT_PADDING_SIZE = 256"
  using place_contended_gap [of i j szs off]
  by (simp add: DEFAULT_PADDING_SIZE_def DEFAULT_CACHE_LINE_SIZE_def)

theorem padding_separates_fields_witness:
  "(0::nat) < 2 \<and> (2::nat) < length [4, 8, 4::nat] \<and>
   place_contended 16 [4, 8, 4] = [(16, 4), (276, 8), (540, 4)] \<and>
   fst (place_contended 16 [4, 8, 4] ! 0) + snd (place_contended 16 [4, 8, 4] ! 0) + 256
     \<le> fst (place_contended 16 [4, 8, 4] ! 2)"
  using padding_separates_fields [of 0 2 "[4, 8, 4]" 16]
  by (simp add: DEFAULT_PADDING_SIZE_def DEFAULT_CACHE_LINE_SIZE_def)

text \<open>
  C9. The sizes form a divisibility chain: the fault address granularity is a multiple
  of the cache line size, and the cache line size is a multiple of the stack
  alignment. So an address that is a multiple of the granularity is also a multiple of
  the cache line size and of the stack alignment.
\<close>

theorem granularity_divisibility_chain:
  "sint DEFAULT_CACHE_LINE_SIZE dvd uint pd_segfault_address \<and>
   sint StackAlignmentInBytes dvd sint DEFAULT_CACHE_LINE_SIZE \<and>
   (uint pd_segfault_address dvd uint (x::size_t) \<longrightarrow>
      sint DEFAULT_CACHE_LINE_SIZE dvd uint x \<and> sint StackAlignmentInBytes dvd uint x)"
proof -
  have a: "sint DEFAULT_CACHE_LINE_SIZE dvd uint pd_segfault_address"
    by (simp add: DEFAULT_CACHE_LINE_SIZE_def pd_segfault_address_def)
  have b: "sint StackAlignmentInBytes dvd sint DEFAULT_CACHE_LINE_SIZE"
    by (simp add: DEFAULT_CACHE_LINE_SIZE_def StackAlignmentInBytes_def)
  from a b show ?thesis
    by (blast intro: dvd_trans)
qed

theorem granularity_divisibility_chain_witness:
  "uint pd_segfault_address dvd uint (12288::size_t) \<and>
   sint DEFAULT_CACHE_LINE_SIZE dvd uint (12288::size_t) \<and>
   sint StackAlignmentInBytes dvd uint (12288::size_t)"
proof -
  have h: "uint pd_segfault_address dvd uint (12288::size_t)"
    by (simp add: pd_segfault_address_def)
  with granularity_divisibility_chain [of 12288] show ?thesis
    by blast
qed


end
